theory Spec2Isabelle
  imports Main
begin

section \<open>Data model\<close>

text \<open>
  The struct \<open>coaster\<close> of main.go (lines 23-29), with its fields in the order of the
  declaration. \<open>Height\<close> is a Go \<open>int\<close>; no arithmetic is done on it.
\<close>

record coaster =
  Name :: string
  Manufactur :: string
  ID :: string
  InPark :: string
  Height :: int

text \<open>\<open>var coasterBody coaster\<close>: the zero value of the struct.\<close>

definition coaster_zero :: coaster where
  "coaster_zero = \<lparr>Name = [], Manufactur = [], ID = [], InPark = [], Height = 0\<rparr>"

text \<open>
  \<open>coasterHandlers.store\<close> is a \<open>map[string]coaster\<close>. The mutex only serialises the
  accesses; the model is sequential, one request at a time.
\<close>

type_synonym store = "string \<rightharpoonup> coaster"

definition newCoasterHandlers :: store where
  "newCoasterHandlers = Map.empty"

text \<open>
  \<open>for id, c := range h.store\<close> visits every entry once, in an order Go leaves
  unspecified. The handlers that iterate take the visit as a list of entries;
  \<open>range_of h es\<close> says that \<open>es\<close> is such a visit of \<open>h\<close>.
\<close>

definition range_of :: "store \<Rightarrow> (string \<times> coaster) list \<Rightarrow> bool" where
  "range_of h es = (distinct (map fst es) \<and> map_of es = h)"

section \<open>JSON values and the struct tags\<close>

datatype json =
  JString string
  | JInt int
  | JArray "json list"
  | JObject "(string \<times> json) list"

text \<open>
  What \<open>json.Marshal\<close> emits for a \<open>coaster\<close>: one member per exported field, in the
  order of the declaration, under the key of the field's \<open>json:"..."\<close> tag.
\<close>

definition coaster_json :: "coaster \<Rightarrow> json" where
  "coaster_json c = JObject
     [(''name'', JString (Name c)),
      (''manufactur'', JString (Manufactur c)),
      (''id'', JString (ID c)),
      (''inPark'', JString (InPark c)),
      (''height'', JInt (Height c))]"

fun json_keys :: "json \<Rightarrow> string list" where
  "json_keys (JObject ms) = map fst ms"
| "json_keys _ = []"

text \<open>
  A byte slice handed to \<open>w.Write\<close>: either the bytes of a Go string, or the bytes
  \<open>encoding/json\<close> renders for a value (the rendering itself, with its escapes, is the
  library's and is not unfolded).
\<close>

datatype bytes = Text string | Encoded json

text \<open>
  \<open>json.Marshal\<close> returns the bytes and an error. For the values of this program
  (strings and integers) it has no failing case.
\<close>

definition json_Marshal :: "json \<Rightarrow> bytes \<times> string option" where
  "json_Marshal v = (Encoded v, None)"

text \<open>
  \<open>json.Unmarshal(bodyBytes, &coasterBody)\<close> is a parameter of the handlers: a function
  from the body and the target struct to the target as the decoder leaves it and the
  error it returns, if any.
\<close>

type_synonym unmarshal = "string \<Rightarrow> coaster \<Rightarrow> coaster \<times> string option"

section \<open>Requests and the response writer\<close>

text \<open>
  What the handlers read of a \<open>*http.Request\<close>: \<open>r.Method\<close>, \<open>r.URL.String()\<close>,
  \<open>r.Header.Get("content-type")\<close> (empty when the header is absent), the outcome of
  \<open>ioutil.ReadAll(r.Body)\<close> (bytes and error) and the outcome of \<open>r.BasicAuth()\<close>
  (\<open>None\<close> when \<open>ok\<close> is false).
\<close>

record request =
  Method :: string
  URL :: string
  ContentType :: string
  Body :: "string \<times> string option"
  BasicAuth :: "(string \<times> string) option"

text \<open>
  The \<open>http.ResponseWriter\<close>: the header map under construction, the status line once
  it is written (with the headers that went out with it), and the body chunks in the
  order written. The first \<open>WriteHeader\<close> wins and later ones are dropped; a \<open>Write\<close>
  before any \<open>WriteHeader\<close> sends status 200 first; a handler that returns without
  writing anything gets status 200 from the server.
\<close>

record writer =
  header :: "(string \<times> string) list"
  written :: "(nat \<times> (string \<times> string) list) option"
  body :: "bytes list"

definition new_writer :: writer where
  "new_writer = \<lparr>header = [], written = None, body = []\<rparr>"

definition Header_Add :: "string \<Rightarrow> string \<Rightarrow> writer \<Rightarrow> writer" where
  "Header_Add k v w = w\<lparr>header := header w @ [(k, v)]\<rparr>"

definition WriteHeader :: "nat \<Rightarrow> writer \<Rightarrow> writer" where
  "WriteHeader code w =
     (case written w of
        None \<Rightarrow> w\<lparr>written := Some (code, header w)\<rparr>
      | Some _ \<Rightarrow> w)"

definition Write :: "bytes \<Rightarrow> writer \<Rightarrow> writer" where
  "Write b w =
     (let w1 = (case written w of None \<Rightarrow> WriteHeader 200 w | Some _ \<Rightarrow> w)
      in w1\<lparr>body := body w1 @ [b]\<rparr>)"

definition status_sent :: "writer \<Rightarrow> nat" where
  "status_sent w = (case written w of None \<Rightarrow> 200 | Some (code, _) \<Rightarrow> code)"

definition headers_sent :: "writer \<Rightarrow> (string \<times> string) list" where
  "headers_sent w = (case written w of None \<Rightarrow> header w | Some (_, hs) \<Rightarrow> hs)"

section \<open>Library functions the handlers call\<close>

text \<open>\<open>fmt.Sprintf("%d", n)\<close>: the decimal digits, with a minus sign below zero.\<close>

definition digit :: "nat \<Rightarrow> char" where
  "digit d = char_of (48 + d)"

fun dec_digits :: "nat \<Rightarrow> string" where
  "dec_digits n = (if n < 10 then [digit n] else dec_digits (n div 10) @ [digit (n mod 10)])"

definition Sprintf_d :: "int \<Rightarrow> string" where
  "Sprintf_d i = (if i < 0 then CHR ''-'' # dec_digits (nat (- i)) else dec_digits (nat i))"

text \<open>\<open>strings.Split(s, sep)\<close> for a one-character separator.\<close>

fun Split :: "string \<Rightarrow> char \<Rightarrow> string list" where
  "Split [] sep = [[]]"
| "Split (x # xs) sep =
     (if x = sep then [] # Split xs sep
      else (case Split xs sep of
              [] \<Rightarrow> [[x]]
            | p # ps \<Rightarrow> (x # p) # ps))"

text \<open>
  \<open>rand.Intn(n)\<close> panics for \<open>n \<le> 0\<close> and otherwise returns a number in \<open>[0, n)\<close>;
  \<open>rnd\<close> is the generator's draw. \<open>None\<close> is the panic.
\<close>

definition rand_Intn :: "nat \<Rightarrow> int \<Rightarrow> int option" where
  "rand_Intn rnd n = (if n \<le> 0 then None else Some (int rnd mod n))"

text \<open>Indexing a slice: out of range is a panic (\<open>None\<close>).\<close>

definition index :: "'a list \<Rightarrow> int \<Rightarrow> 'a option" where
  "index xs i = (if 0 \<le> i \<and> i < int (length xs) then Some (xs ! nat i) else None)"

section \<open>The handlers\<close>

text \<open>
  \<open>post\<close> (main.go, lines 49-73). None of its three error branches returns: each
  writes its response and falls through to the next statement. \<open>now\<close> is the reading
  \<open>time.Now().UnixNano()\<close>.
\<close>

definition post :: "unmarshal \<Rightarrow> int \<Rightarrow> store \<Rightarrow> request \<Rightarrow> writer \<Rightarrow> writer \<times> store" where
  "post json_Unmarshal now h r w =
     (let (bodyBytes, err) = Body r;
          w1 = (case err of
                  Some e \<Rightarrow> Write (Text e) (WriteHeader 500 w)
                | None \<Rightarrow> w);
          ct = ContentType r;
          w2 = (if ct \<noteq> ''application/json''
                then Write (Text (''Need type of application/json but got '' @ [CHR 0x27] @ ct @ [CHR 0x27]))
                       (WriteHeader 415 w1)
                else w1);
          (coasterBody, err2) = json_Unmarshal bodyBytes coaster_zero;
          w3 = (case err2 of
                  Some e \<Rightarrow> Write (Text e) (WriteHeader 400 w2)
                | None \<Rightarrow> w2);
          coasterBody' = coasterBody\<lparr>ID := Sprintf_d now\<rparr>
      in (w3, h(ID coasterBody' \<mapsto> coasterBody')))"

text \<open>
  \<open>getRandomCoaster\<close> (lines 75-100). \<open>es\<close> is the visit of the store by the
  \<open>range\<close> loop, \<open>rnd\<close> the generator's draw. \<open>None\<close> is a panic.
\<close>

definition getRandomCoaster :: "(string \<times> coaster) list \<Rightarrow> nat \<Rightarrow> writer \<Rightarrow> writer option" where
  "getRandomCoaster es rnd w =
     (let ids = map fst es in
      if length ids = 0 then Some (WriteHeader 404 w)
      else
        (case (if length ids = 1 then index ids 0
               else (case rand_Intn rnd (int (length ids) - 1) of
                       None \<Rightarrow> None
                     | Some k \<Rightarrow> index ids k)) of
           None \<Rightarrow> None
         | Some target \<Rightarrow>
             Some (WriteHeader 302
                     (Header_Add ''location'' (''/coasters/'' @ target)
                        (Header_Add ''content-type'' ''application/json'' w)))))"

text \<open>\<open>getCoaster\<close> (lines 102-136), registered for the pattern \<open>/coasters/\<close>.\<close>

definition getCoaster :: "(string \<times> coaster) list \<Rightarrow> nat \<Rightarrow> store \<Rightarrow> request \<Rightarrow> writer \<Rightarrow> writer option" where
  "getCoaster es rnd h r w =
     (let paths = Split (URL r) (CHR ''/'') in
      if length paths \<noteq> 3
      then Some (Write (Text ''The url that you request is not found'') (WriteHeader 404 w))
      else
        (let id = paths ! 2 in
         if id = ''random'' then getRandomCoaster es rnd w
         else
           (case h id of
              None \<Rightarrow>
                Some (Write (Text (''No content found for ID, '' @ [CHR 0x27] @ id @ [CHR 0x27]))
                        (WriteHeader 404 w))
            | Some dataCoaster \<Rightarrow>
                (case json_Marshal (coaster_json dataCoaster) of
                   (jsonBytes, Some e) \<Rightarrow> Some (Write (Text e) (WriteHeader 500 w))
                 | (jsonBytes, None) \<Rightarrow>
                     Some (Write jsonBytes
                             (WriteHeader 200
                                (Header_Add ''content-type'' ''application/json'' w)))))))"

text \<open>\<open>get\<close> (lines 138-155): the list of all coasters, in the order of the visit.\<close>

definition get :: "(string \<times> coaster) list \<Rightarrow> writer \<Rightarrow> writer" where
  "get es w =
     (let coasters = map snd es;
          (jsonBytes, err) = json_Marshal (JArray (map coaster_json coasters));
          w1 = (case err of
                  Some e \<Rightarrow> Write (Text e) (WriteHeader 500 w)
                | None \<Rightarrow> w)
      in Write jsonBytes (WriteHeader 200 (Header_Add ''content-type'' ''application/json'' w1)))"

text \<open>\<open>coasters\<close> (lines 36-48), registered for the pattern \<open>/coasters\<close>.\<close>

definition coasters :: "unmarshal \<Rightarrow> int \<Rightarrow> (string \<times> coaster) list \<Rightarrow> store \<Rightarrow> request \<Rightarrow> writer \<Rightarrow> writer \<times> store" where
  "coasters json_Unmarshal now es h r w =
     (if Method r = ''GET'' then (get es w, h)
      else if Method r = ''POST'' then post json_Unmarshal now h r w
      else (Write (Text ''Method not allowed'') (WriteHeader 405 w), h))"

text \<open>The admin portal (lines 161-180).\<close>

record adminPortal =
  password :: string

text \<open>\<open>newAdminPortal\<close> panics (\<open>None\<close>) when \<open>ADMIN_PASSWORD\<close> is unset or empty.\<close>

definition newAdminPortal :: "string \<Rightarrow> adminPortal option" where
  "newAdminPortal getenv = (if getenv = [] then None else Some \<lparr>password = getenv\<rparr>)"

definition handler :: "adminPortal \<Rightarrow> request \<Rightarrow> writer \<Rightarrow> writer" where
  "handler a r w =
     (case BasicAuth r of
        None \<Rightarrow> Write (Text ''401 unauthorized'') (WriteHeader 401 w)
      | Some (username, pw) \<Rightarrow>
          if username \<noteq> ''admin'' \<or> pw \<noteq> password a
          then Write (Text ''401 unauthorized'') (WriteHeader 401 w)
          else Write (Text (''<div><h2 style='' @ [CHR 0x27] @ ''color:orange;'' @ [CHR 0x27]
                             @ ''>Wellcome, admin</h2></div>'')) w)"

text \<open>
  A run of the server: the store after a sequence of \<open>POST /coasters\<close> requests, each
  with its clock reading. The other handlers only read the store.
\<close>

fun posts :: "unmarshal \<Rightarrow> store \<Rightarrow> (int \<times> request) list \<Rightarrow> store" where
  "posts json_Unmarshal h [] = h"
| "posts json_Unmarshal h ((now, r) # evs) =
     posts json_Unmarshal (snd (post json_Unmarshal now h r new_writer)) evs"

section \<open>Auxiliary definitions\<close>

text \<open>Reading a decimal string back: the inverse of \<open>dec_digits\<close>, used in the proofs.\<close>

fun digit_val :: "char \<Rightarrow> nat" where
  "digit_val c = of_char c - 48"

definition dec_value :: "string \<Rightarrow> nat" where
  "dec_value s = foldl (\<lambda>a c. 10 * a + digit_val c) 0 s"

text \<open>
  Requests as the server hands them to the handlers: a \<open>POST /coasters\<close> with a
  content type and a body that was read without error, and a \<open>GET\<close> of a URL.
\<close>

definition post_request :: "string \<Rightarrow> string \<Rightarrow> request" where
  "post_request ct b =
     \<lparr>Method = ''POST'', URL = ''/coasters'', ContentType = ct, Body = (b, None), BasicAuth = None\<rparr>"

definition get_request :: "string \<Rightarrow> request" where
  "get_request url =
     \<lparr>Method = ''GET'', URL = url, ContentType = [], Body = ([], None), BasicAuth = None\<rparr>"

text \<open>
  \<open>json.Unmarshal\<close> on the bodies used in the examples below: a full coaster, a body with
  a client-chosen id, a body with the key \<open>manufacturer\<close> (no field has that tag, so the
  member is skipped), a body whose \<open>height\<close> is a string (the decoder fills the other
  fields and returns the type error), and a truncated body (a syntax error: the target
  is left as it was). Every other body is outside the table.
\<close>

definition sample_Unmarshal :: unmarshal where
  \<open>sample_Unmarshal b t =
     (if b = ''{"name":"Taron","manufactur":"Intamin","inPark":"Phantasialand","height":30}''
      then (t\<lparr>Name := ''Taron'', Manufactur := ''Intamin'', InPark := ''Phantasialand'', Height := 30\<rparr>, None)
      else if b = ''{"id":"mine","name":"Taron"}''
      then (t\<lparr>Name := ''Taron'', ID := ''mine''\<rparr>, None)
      else if b = ''{"manufacturer":"Intamin"}''
      then (t, None)
      else if b = ''{"name":"Big","height":"tall"}''
      then (t\<lparr>Name := ''Big''\<rparr>,
            Some ''json: cannot unmarshal string into Go struct field coaster.height of type int'')
      else if b = ''{''
      then (t, Some ''unexpected end of JSON input'')
      else (t, Some ''body outside the table''))\<close>

section \<open>Decimal strings\<close>

declare dec_digits.simps [simp del]

lemma digit_of_char: "d < 10 \<Longrightarrow> (of_char (digit d) :: nat) = 48 + d"
proof -
  assume d: "d < 10"
  have "(of_char (digit d) :: nat) = (48 + d) mod 256"
    unfolding digit_def by (rule of_char_of)
  also have "\<dots> = 48 + d" using d by (intro mod_less) arith
  finally show ?thesis .
qed

lemma dec_value_snoc: "dec_value (s @ [c]) = 10 * dec_value s + digit_val c"
  by (simp add: dec_value_def)

lemma dec_value_dec_digits: "dec_value (dec_digits n) = n"
proof (induction n rule: dec_digits.induct)
  case (1 n)
  show ?case
  proof (cases "n < 10")
    case True
    then show ?thesis
      by (simp add: dec_digits.simps [of n] dec_value_def digit_of_char)
  next
    case False
    then have "dec_value (dec_digits n) = 10 * dec_value (dec_digits (n div 10)) + digit_val (digit (n mod 10))"
      by (simp add: dec_digits.simps [of n] dec_value_snoc)
    also have "\<dots> = 10 * (n div 10) + n mod 10"
      using 1 False by (simp add: digit_of_char)
    finally show ?thesis by simp
  qed
qed

lemma dec_digits_inj: "dec_digits m = dec_digits n \<Longrightarrow> m = n"
proof -
  assume eq: "dec_digits m = dec_digits n"
  have "m = dec_value (dec_digits m)" by (rule dec_value_dec_digits [symmetric])
  also have "\<dots> = dec_value (dec_digits n)" by (simp only: eq)
  also have "\<dots> = n" by (rule dec_value_dec_digits)
  finally show "m = n" .
qed

lemma dec_digits_set: "set (dec_digits n) \<subseteq> digit ` {..<10}"
proof (induction n rule: dec_digits.induct)
  case (1 n)
  show ?case
  proof (cases "n < 10")
    case True
    then show ?thesis by (simp add: dec_digits.simps [of n])
  next
    case False
    then show ?thesis using 1 by (simp add: dec_digits.simps [of n])
  qed
qed

lemma dec_digits_nonempty: "dec_digits n \<noteq> []"
  by (simp add: dec_digits.simps [of n])

lemma digit_range: "d < 10 \<Longrightarrow> 48 \<le> (of_char (digit d) :: nat) \<and> (of_char (digit d) :: nat) \<le> 57"
  by (simp add: digit_of_char)

lemma not_digit: "(of_char c :: nat) < 48 \<or> 57 < (of_char c :: nat) \<Longrightarrow> c \<notin> digit ` {..<10}"
  using digit_range by fastforce

lemma dec_digits_no: "(of_char c :: nat) < 48 \<or> 57 < (of_char c :: nat) \<Longrightarrow> c \<notin> set (dec_digits n)"
  using dec_digits_set [of n] not_digit [of c] by blast

lemma Sprintf_d_nonempty: "Sprintf_d i \<noteq> []"
  by (simp add: Sprintf_d_def dec_digits_nonempty)

lemma Sprintf_d_inj: "Sprintf_d i = Sprintf_d j \<Longrightarrow> i = j"
proof -
  assume eq: "Sprintf_d i = Sprintf_d j"
  have minus: "CHR ''-'' \<notin> set (dec_digits n)" for n
    by (rule dec_digits_no) simp
  have nohd: "CHR ''-'' # s \<noteq> dec_digits n" for s n
    using minus [of n] by (metis list.set_intros(1))
  show ?thesis
  proof (cases "i < 0")
    case True
    show ?thesis
    proof (cases "j < 0")
      case True
      with \<open>i < 0\<close> eq have "dec_digits (nat (- i)) = dec_digits (nat (- j))"
        by (simp add: Sprintf_d_def)
      then have "nat (- i) = nat (- j)" by (rule dec_digits_inj)
      with True \<open>i < 0\<close> show ?thesis by simp
    next
      case False
      with \<open>i < 0\<close> eq nohd show ?thesis by (simp add: Sprintf_d_def)
    qed
  next
    case False
    show ?thesis
    proof (cases "j < 0")
      case True
      with False eq nohd [of "dec_digits (nat (- j))" "nat i"] show ?thesis
        by (simp add: Sprintf_d_def)
    next
      case jn: False
      with False eq have "dec_digits (nat i) = dec_digits (nat j)"
        by (simp add: Sprintf_d_def)
      then have "nat i = nat j" by (rule dec_digits_inj)
      with False jn show ?thesis by simp
    qed
  qed
qed

lemma Sprintf_d_chars: "c \<in> set (Sprintf_d i) \<Longrightarrow> c = CHR ''-'' \<or> c \<in> digit ` {..<10}"
  using dec_digits_set by (auto simp: Sprintf_d_def split: if_splits)

lemma Sprintf_d_no: "c \<noteq> CHR ''-'' \<Longrightarrow> (of_char c :: nat) < 48 \<or> 57 < (of_char c :: nat) \<Longrightarrow> c \<notin> set (Sprintf_d i)"
  using Sprintf_d_chars [of c i] not_digit [of c] by blast

lemma Sprintf_d_no_slash: "CHR ''/'' \<notin> set (Sprintf_d i)"
  by (rule Sprintf_d_no) simp_all

lemma Sprintf_d_not_random: "Sprintf_d i \<noteq> ''random''"
proof
  assume "Sprintf_d i = ''random''"
  then have "CHR ''r'' \<in> set (Sprintf_d i)" by simp
  moreover have "CHR ''r'' \<notin> set (Sprintf_d i)" by (rule Sprintf_d_no) simp_all
  ultimately show False by simp
qed

section \<open>Splitting a URL\<close>

lemma Split_nonempty: "Split s c \<noteq> []"
  by (induction s) (auto split: list.splits)

lemma Split_no_sep: "c \<notin> set s \<Longrightarrow> Split s c = [s]"
  by (induction s) (auto split: list.splits)

lemma Split_append: "c \<notin> set p \<Longrightarrow> Split (p @ c # s) c = p # Split s c"
  by (induction p) (auto split: list.splits)

lemma Split_length: "length (Split s c) = Suc (count_list s c)"
  by (induction s) (auto split: list.splits simp: Split_nonempty)

lemma Split_coasters: "Split (''/coasters/'' @ s) (CHR ''/'') = [] # ''coasters'' # Split s (CHR ''/'')"
proof -
  have a: "Split ([] @ CHR ''/'' # (''coasters'' @ CHR ''/'' # s)) (CHR ''/'') =
      [] # Split (''coasters'' @ CHR ''/'' # s) (CHR ''/'')"
    by (rule Split_append) simp
  have b: "Split (''coasters'' @ CHR ''/'' # s) (CHR ''/'') = ''coasters'' # Split s (CHR ''/'')"
    by (rule Split_append) simp
  have "''/coasters/'' @ s = [] @ CHR ''/'' # (''coasters'' @ CHR ''/'' # s)" by simp
  then show ?thesis using a b by simp
qed

section \<open>The store after a post\<close>

lemmas writer_defs = new_writer_def Header_Add_def WriteHeader_def Write_def status_sent_def headers_sent_def

lemma post_store:
  "snd (post u now h r w) = h(Sprintf_d now \<mapsto> (fst (u (fst (Body r)) coaster_zero))\<lparr>ID := Sprintf_d now\<rparr>)"
  by (simp add: post_def Let_def split: prod.splits)

lemma dom_post: "dom (snd (post u now h r w)) = insert (Sprintf_d now) (dom h)"
  by (simp add: post_store)

lemma dom_posts: "dom (posts u h evs) = dom h \<union> Sprintf_d ` fst ` set evs"
proof (induction evs arbitrary: h)
  case Nil
  then show ?case by simp
next
  case (Cons ev evs)
  obtain now r where ev: "ev = (now, r)" by (cases ev)
  have "dom (posts u h (ev # evs)) =
      dom (snd (post u now h r new_writer)) \<union> Sprintf_d ` fst ` set evs"
    by (simp only: ev posts.simps Cons.IH)
  also have "\<dots> = dom h \<union> Sprintf_d ` fst ` set (ev # evs)"
    by (simp add: dom_post ev)
  finally show ?case .
qed


section \<open>The admin portal\<close>

text \<open>
  C8. For every request to \<open>/admin\<close>, the response is 401 with the plain-text body
  \<open>401 unauthorized\<close> exactly when the Basic credentials are absent, or the username
  is not \<open>admin\<close>, or the password differs from the configured one; and it is 200 with
  the HTML welcome fragment exactly when the credentials are \<open>admin\<close> and the
  configured password.
\<close>

theorem admin_handler_unauthorized_iff:
  "(status_sent (handler a r new_writer) = 401 \<and> body (handler a r new_writer) = [Text ''401 unauthorized'']) =
     (case BasicAuth r of None \<Rightarrow> True | Some (username, pw) \<Rightarrow> username \<noteq> ''admin'' \<or> pw \<noteq> password a)
   \<and> (status_sent (handler a r new_writer) = 200 \<and>
        body (handler a r new_writer) =
          [Text (''<div><h2 style='' @ [CHR 0x27] @ ''color:orange;'' @ [CHR 0x27] @ ''>Wellcome, admin</h2></div>'')]) =
     (case BasicAuth r of None \<Rightarrow> False | Some (username, pw) \<Rightarrow> username = ''admin'' \<and> pw = password a)"
  by (auto simp: handler_def writer_defs split: option.splits prod.splits)

theorem admin_handler_unauthorized_iff_witness:
  "status_sent (handler \<lparr>password = ''s3cret''\<rparr>
      \<lparr>Method = ''GET'', URL = ''/admin'', ContentType = [], Body = ([], None), BasicAuth = None\<rparr>
      new_writer) = 401
   \<and> status_sent (handler \<lparr>password = ''s3cret''\<rparr>
      \<lparr>Method = ''GET'', URL = ''/admin'', ContentType = [], Body = ([], None),
       BasicAuth = Some (''admin'', ''wrong'')\<rparr>
      new_writer) = 401
   \<and> status_sent (handler \<lparr>password = ''s3cret''\<rparr>
      \<lparr>Method = ''GET'', URL = ''/admin'', ContentType = [], Body = ([], None),
       BasicAuth = Some (''root'', ''s3cret'')\<rparr>
      new_writer) = 401
   \<and> status_sent (handler \<lparr>password = ''s3cret''\<rparr>
      \<lparr>Method = ''GET'', URL = ''/admin'', ContentType = [], Body = ([], None),
       BasicAuth = Some (''admin'', ''s3cret'')\<rparr>
      new_writer) = 200"
  using
    admin_handler_unauthorized_iff [of "\<lparr>password = ''s3cret''\<rparr>"
      "\<lparr>Method = ''GET'', URL = ''/admin'', ContentType = [], Body = ([], None), BasicAuth = None\<rparr>"]
    admin_handler_unauthorized_iff [of "\<lparr>password = ''s3cret''\<rparr>"
      "\<lparr>Method = ''GET'', URL = ''/admin'', ContentType = [], Body = ([], None),
        BasicAuth = Some (''admin'', ''wrong'')\<rparr>"]
    admin_handler_unauthorized_iff [of "\<lparr>password = ''s3cret''\<rparr>"
      "\<lparr>Method = ''GET'', URL = ''/admin'', ContentType = [], Body = ([], None),
        BasicAuth = Some (''root'', ''s3cret'')\<rparr>"]
    admin_handler_unauthorized_iff [of "\<lparr>password = ''s3cret''\<rparr>"
      "\<lparr>Method = ''GET'', URL = ''/admin'', ContentType = [], Body = ([], None),
        BasicAuth = Some (''admin'', ''s3cret'')\<rparr>"]
  by simp

section \<open>The random redirect\<close>

lemma getCoaster_random:
  "URL r = ''/coasters/random'' \<Longrightarrow> getCoaster es rnd h r w = getRandomCoaster es rnd w"
  by (simp add: getCoaster_def)

lemma getRandomCoaster_empty: "getRandomCoaster [] rnd w = Some (WriteHeader 404 w)"
  by (simp add: getRandomCoaster_def)

lemma getRandomCoaster_single:
  "getRandomCoaster [(k, c)] rnd w =
     Some (WriteHeader 302 (Header_Add ''location'' (''/coasters/'' @ k)
            (Header_Add ''content-type'' ''application/json'' w)))"
  by (simp add: getRandomCoaster_def index_def)

lemma getRandomCoaster_many:
  assumes "2 \<le> length es"
  shows "getRandomCoaster es rnd w =
     Some (WriteHeader 302 (Header_Add ''location'' (''/coasters/'' @ fst (es ! (rnd mod (length es - 1))))
            (Header_Add ''content-type'' ''application/json'' w)))"
proof -
  let ?n = "length es"
  let ?i = "rnd mod (?n - 1)"
  have eq: "int rnd mod (int ?n - 1) = int ?i"
    using assms by (simp add: zmod_int)
  have r: "rand_Intn rnd (int (length (map fst es)) - 1) = Some (int ?i)"
    using assms eq by (simp add: rand_Intn_def)
  have "?i < ?n - 1" using assms by simp
  then have lt: "?i < ?n" by arith
  have i: "index (map fst es) (int ?i) = Some (fst (es ! ?i))"
    using lt by (simp add: index_def)
  have n0: "length (map fst es) \<noteq> 0" and n1: "length (map fst es) \<noteq> 1"
    using assms by auto
  show ?thesis
    unfolding getRandomCoaster_def Let_def
    by (simp only: n0 n1 r i if_False option.case)
qed

lemma redirect_status:
  "status_sent (WriteHeader 302 (Header_Add ''location'' l
       (Header_Add ''content-type'' ''application/json'' new_writer))) = 302"
  by (simp add: writer_defs)

lemma redirect_location:
  "map_of (headers_sent (WriteHeader 302 (Header_Add ''location'' l
       (Header_Add ''content-type'' ''application/json'' new_writer)))) ''location'' = Some l"
  by (simp add: writer_defs)

lemma range_of_empty: "range_of Map.empty es \<Longrightarrow> es = []"
  by (simp add: range_of_def)

lemma range_of_keys: "range_of h es \<Longrightarrow> fst ` set es = dom h"
  by (metis range_of_def dom_map_of_conv_image_fst)

lemma getCoaster_random_cases:
  assumes "range_of h es" and "URL r = ''/coasters/random''"
  shows "(if h = Map.empty
          then getCoaster es rnd h r new_writer = Some (WriteHeader 404 new_writer)
             \<and> status_sent (WriteHeader 404 new_writer) = 404
          else \<exists>w' k. getCoaster es rnd h r new_writer = Some w'
             \<and> k \<in> dom h \<and> (dom h = {k} \<or> k = fst (es ! (rnd mod (length es - 1))))
             \<and> status_sent w' = 302
             \<and> map_of (headers_sent w') ''location'' = Some (''/coasters/'' @ k))"
proof (cases "h = Map.empty")
  case True
  with assms(1) have "es = []" by (simp add: range_of_empty)
  with True assms(2) show ?thesis
    by (simp add: getCoaster_random getRandomCoaster_empty writer_defs)
next
  case False
  have keys: "fst ` set es = dom h" using assms(1) by (rule range_of_keys)
  have ne: "es \<noteq> []"
  proof
    assume "es = []"
    with keys have "dom h = {}" by simp
    then have "h = Map.empty" by simp
    with False show False by simp
  qed
  show ?thesis
  proof (cases "length es = 1")
    case True
    then obtain e where e: "es = [e]" by (cases es) auto
    obtain k c where kc: "e = (k, c)" by (cases e)
    from keys e kc have dom: "dom h = {k}" by simp
    have "getCoaster es rnd h r new_writer =
        Some (WriteHeader 302 (Header_Add ''location'' (''/coasters/'' @ k)
            (Header_Add ''content-type'' ''application/json'' new_writer)))"
      using assms(2) e kc by (simp add: getCoaster_random getRandomCoaster_single)
    with dom False show ?thesis
      by (simp add: redirect_status redirect_location)
  next
    case f: False
    have "length es \<noteq> 0" using ne by simp
    with f have two: "2 \<le> length es" by arith
    let ?i = "rnd mod (length es - 1)"
    have "?i < length es - 1" using two by simp
    then have "?i < length es" by arith
    then have "es ! ?i \<in> set es" by simp
    then have "fst (es ! ?i) \<in> dom h" using keys by blast
    moreover have "getCoaster es rnd h r new_writer =
        Some (WriteHeader 302 (Header_Add ''location'' (''/coasters/'' @ fst (es ! ?i))
            (Header_Add ''content-type'' ''application/json'' new_writer)))"
      using assms(2) two by (simp add: getCoaster_random getRandomCoaster_many)
    ultimately show ?thesis using False
      by (auto simp: redirect_status redirect_location)
  qed
qed

text \<open>
  C7. For a request with URL \<open>/coasters/random\<close>: on an empty store the response is
  404; on a store with exactly one coaster the redirect goes to that coaster's id,
  whatever the random draw; and on every non-empty store the response is 302 with the
  header \<open>location\<close> set to \<open>/coasters/\<close> followed by an id of the store.
\<close>

theorem random_redirect:
  assumes "range_of h es" and "URL r = ''/coasters/random''"
  shows "(h = Map.empty \<longrightarrow>
            getCoaster es rnd h r new_writer = Some (WriteHeader 404 new_writer)
            \<and> status_sent (WriteHeader 404 new_writer) = 404)
       \<and> (\<forall>k c. h = [k \<mapsto> c] \<longrightarrow>
            (\<exists>w'. getCoaster es rnd h r new_writer = Some w'
               \<and> status_sent w' = 302
               \<and> map_of (headers_sent w') ''location'' = Some (''/coasters/'' @ k)))
       \<and> (h \<noteq> Map.empty \<longrightarrow>
            (\<exists>w' k. getCoaster es rnd h r new_writer = Some w'
               \<and> k \<in> dom h
               \<and> status_sent w' = 302
               \<and> map_of (headers_sent w') ''location'' = Some (''/coasters/'' @ k)))"
proof (intro conjI impI allI)
  assume "h = Map.empty"
  then show "getCoaster es rnd h r new_writer = Some (WriteHeader 404 new_writer)"
    using getCoaster_random_cases [OF assms, of rnd] by simp
next
  show "status_sent (WriteHeader 404 new_writer) = 404"
    by (simp add: writer_defs)
next
  fix k c
  assume h: "h = [k \<mapsto> c]"
  then have ne: "h \<noteq> Map.empty" by auto
  from h have "dom h = {k}" by simp
  with ne getCoaster_random_cases [OF assms, of rnd]
  show "\<exists>w'. getCoaster es rnd h r new_writer = Some w'
     \<and> status_sent w' = 302
     \<and> map_of (headers_sent w') ''location'' = Some (''/coasters/'' @ k)"
    by auto
next
  assume "h \<noteq> Map.empty"
  with getCoaster_random_cases [OF assms, of rnd]
  show "\<exists>w' k. getCoaster es rnd h r new_writer = Some w'
     \<and> k \<in> dom h
     \<and> status_sent w' = 302
     \<and> map_of (headers_sent w') ''location'' = Some (''/coasters/'' @ k)"
    by auto
qed

theorem random_redirect_witness:
  "range_of Map.empty []
   \<and> URL (get_request ''/coasters/random'') = ''/coasters/random''
   \<and> getCoaster [] 7 Map.empty (get_request ''/coasters/random'') new_writer
        = Some (WriteHeader 404 new_writer)
   \<and> range_of [''17'' \<mapsto> coaster_zero\<lparr>ID := ''17''\<rparr>] [(''17'', coaster_zero\<lparr>ID := ''17''\<rparr>)]
   \<and> (\<exists>w'. getCoaster [(''17'', coaster_zero\<lparr>ID := ''17''\<rparr>)] 7
              [''17'' \<mapsto> coaster_zero\<lparr>ID := ''17''\<rparr>] (get_request ''/coasters/random'') new_writer = Some w'
         \<and> status_sent w' = 302
         \<and> map_of (headers_sent w') ''location'' = Some ''/coasters/17'')"
proof -
  have u: "URL (get_request ''/coasters/random'') = ''/coasters/random''"
    by (simp add: get_request_def)
  have r0: "range_of Map.empty []" by (simp add: range_of_def)
  have r1: "range_of [''17'' \<mapsto> coaster_zero\<lparr>ID := ''17''\<rparr>] [(''17'', coaster_zero\<lparr>ID := ''17''\<rparr>)]"
    by (simp add: range_of_def)
  from random_redirect [OF r0 u, of 7]
  have a: "getCoaster [] 7 Map.empty (get_request ''/coasters/random'') new_writer
        = Some (WriteHeader 404 new_writer)" by simp
  from random_redirect [OF r1 u, of 7]
  have b: "\<exists>w'. getCoaster [(''17'', coaster_zero\<lparr>ID := ''17''\<rparr>)] 7
              [''17'' \<mapsto> coaster_zero\<lparr>ID := ''17''\<rparr>] (get_request ''/coasters/random'') new_writer = Some w'
         \<and> status_sent w' = 302
         \<and> map_of (headers_sent w') ''location'' = Some (''/coasters/'' @ ''17'')" by blast
  from u r0 r1 a b show ?thesis by simp
qed

text \<open>
  C2 (as the code has it). With two or more coasters the index is drawn by
  \<open>rand.Intn(len(ids)-1)\<close>, so it lies in \<open>0..N-2\<close>: the redirect goes to the entry
  at that index of the visit, and for no draw to the last entry of the visit. The full
  index range \<open>0..N-1\<close> of the claim is not what the code samples.
\<close>

theorem random_skips_last_id:
  assumes "range_of h es" and "2 \<le> length es"
  shows "\<exists>w'. getRandomCoaster es rnd new_writer = Some w'
           \<and> map_of (headers_sent w') ''location''
               = Some (''/coasters/'' @ fst (es ! (rnd mod (length es - 1))))
           \<and> rnd mod (length es - 1) < length es - 1
           \<and> map_of (headers_sent w') ''location'' \<noteq> Some (''/coasters/'' @ fst (last es))"
proof -
  let ?i = "rnd mod (length es - 1)"
  have d: "distinct (map fst es)" using assms(1) by (simp add: range_of_def)
  have lt: "?i < length es - 1" using assms(2) by simp
  have ne: "es \<noteq> []" using assms(2) by auto
  have "last (map fst es) = map fst es ! (length (map fst es) - 1)"
    using ne by (simp add: last_conv_nth)
  then have l: "fst (last es) = map fst es ! (length es - 1)"
    using ne by (simp add: last_map)
  have "?i < length (map fst es)" and "length es - 1 < length (map fst es)"
    using lt ne by simp_all
  with d have "(map fst es ! ?i = map fst es ! (length es - 1)) = (?i = length es - 1)"
    by (rule nth_eq_iff_index_eq)
  with lt have "map fst es ! ?i \<noteq> map fst es ! (length es - 1)" by simp
  moreover have "map fst es ! ?i = fst (es ! ?i)" using lt by simp
  ultimately have "fst (es ! ?i) \<noteq> fst (last es)" using l by simp
  then show ?thesis
    using lt by (simp add: getRandomCoaster_many [OF assms(2)] redirect_location)
qed

theorem random_skips_last_id_witness:
  "range_of [''2'' \<mapsto> coaster_zero\<lparr>ID := ''2''\<rparr>, ''1'' \<mapsto> coaster_zero\<lparr>ID := ''1''\<rparr>]
      [(''1'', coaster_zero\<lparr>ID := ''1''\<rparr>), (''2'', coaster_zero\<lparr>ID := ''2''\<rparr>)]
   \<and> (\<forall>rnd. \<exists>w'. getRandomCoaster
         [(''1'', coaster_zero\<lparr>ID := ''1''\<rparr>), (''2'', coaster_zero\<lparr>ID := ''2''\<rparr>)] rnd new_writer = Some w'
       \<and> map_of (headers_sent w') ''location'' = Some ''/coasters/1''
       \<and> map_of (headers_sent w') ''location'' \<noteq> Some ''/coasters/2'')"
proof -
  let ?es = "[(''1'', coaster_zero\<lparr>ID := ''1''\<rparr>), (''2'', coaster_zero\<lparr>ID := ''2''\<rparr>)]"
  have r: "range_of [''2'' \<mapsto> coaster_zero\<lparr>ID := ''2''\<rparr>, ''1'' \<mapsto> coaster_zero\<lparr>ID := ''1''\<rparr>] ?es"
    by (simp add: range_of_def)
  have two: "2 \<le> length ?es" by simp
  have "\<exists>w'. getRandomCoaster ?es rnd new_writer = Some w'
       \<and> map_of (headers_sent w') ''location'' = Some ''/coasters/1''
       \<and> map_of (headers_sent w') ''location'' \<noteq> Some ''/coasters/2''" for rnd
    using random_skips_last_id [OF r two, of rnd] by simp
  with r show ?thesis by blast
qed

section \<open>Lookup by id\<close>

lemma posts_keys_decimal:
  "k \<in> dom (posts u newCoasterHandlers evs) \<Longrightarrow> \<exists>t. k = Sprintf_d t"
  by (auto simp: dom_posts newCoasterHandlers_def)

lemma Split_id:
  assumes "CHR ''/'' \<notin> set s"
  shows "Split (''/coasters/'' @ s) (CHR ''/'') = [[], ''coasters'', s]"
proof -
  have "Split s (CHR ''/'') = [s]" using assms by (rule Split_no_sep)
  then show ?thesis by (simp only: Split_coasters)
qed

lemma getCoaster_hit:
  assumes "CHR ''/'' \<notin> set k" and "k \<noteq> ''random''" and "h k = Some c"
    and "URL r = ''/coasters/'' @ k"
  shows "getCoaster es rnd h r w =
     Some (Write (Encoded (coaster_json c))
             (WriteHeader 200 (Header_Add ''content-type'' ''application/json'' w)))"
proof -
  have "Split (URL r) (CHR ''/'') = [[], ''coasters'', k]"
    unfolding assms(4) using assms(1) by (rule Split_id)
  then show ?thesis
    using assms(2,3) by (simp add: getCoaster_def json_Marshal_def)
qed

lemma getCoaster_miss:
  assumes "CHR ''/'' \<notin> set k" and "k \<noteq> ''random''" and "h k = None"
    and "URL r = ''/coasters/'' @ k"
  shows "getCoaster es rnd h r w =
     Some (Write (Text (''No content found for ID, '' @ [CHR 0x27] @ k @ [CHR 0x27]))
             (WriteHeader 404 w))"
proof -
  have "Split (URL r) (CHR ''/'') = [[], ''coasters'', k]"
    unfolding assms(4) using assms(1) by (rule Split_id)
  then show ?thesis
    using assms(2,3) by (simp add: getCoaster_def)
qed

lemma getCoaster_shape:
  assumes "length (Split (URL r) (CHR ''/'')) \<noteq> 3"
  shows "getCoaster es rnd h r w =
     Some (Write (Text ''The url that you request is not found'') (WriteHeader 404 w))"
  using assms by (simp add: getCoaster_def)

lemma count_list_pos: "x \<in> set xs \<Longrightarrow> 0 < count_list xs x"
  by (induction xs) auto

lemma Sprintf_d_5: "Sprintf_d 5 = ''5''"
  by code_simp

lemma Sprintf_d_6: "Sprintf_d 6 = ''6''"
  by code_simp

lemma posts_example:
  \<open>posts sample_Unmarshal newCoasterHandlers
      [(5, post_request ''application/json''
             ''{"name":"Taron","manufactur":"Intamin","inPark":"Phantasialand","height":30}'')]
    = [''5'' \<mapsto> \<lparr>Name = ''Taron'', Manufactur = ''Intamin'', ID = ''5'',
                   InPark = ''Phantasialand'', Height = 30\<rparr>]\<close>
  by (simp add: post_store post_request_def sample_Unmarshal_def coaster_zero_def
      newCoasterHandlers_def Sprintf_d_5)

text \<open>
  C10. \<open>getCoaster\<close> splits \<open>r.URL.String()\<close>, query string included, on \<open>/\<close>. For a store
  reached by posts and an id in it: the URL \<open>/coasters/{id}\<close> is answered 200 with the
  coaster, while \<open>/coasters/{id}?q\<close> is answered 404; when \<open>q\<close> has no \<open>/\<close> the third
  segment, the key that is looked up and the id named in the message are \<open>{id}?q\<close>.
\<close>

theorem query_string_is_part_of_the_id:
  assumes "h = posts u newCoasterHandlers evs" and "h cid = Some c"
    and "URL r = ''/coasters/'' @ cid @ ''?'' @ q"
  shows "getCoaster es rnd h (r\<lparr>URL := ''/coasters/'' @ cid\<rparr>) new_writer =
           Some (Write (Encoded (coaster_json c))
                  (WriteHeader 200 (Header_Add ''content-type'' ''application/json'' new_writer)))
       \<and> (\<exists>w'. getCoaster es rnd h r new_writer = Some w' \<and> status_sent w' = 404)
       \<and> (CHR ''/'' \<notin> set q \<longrightarrow>
            Split (URL r) (CHR ''/'') ! 2 = cid @ ''?'' @ q
            \<and> getCoaster es rnd h r new_writer =
                Some (Write (Text (''No content found for ID, '' @ [CHR 0x27] @ cid @ ''?'' @ q @ [CHR 0x27]))
                       (WriteHeader 404 new_writer)))"
proof -
  from assms(2) have "cid \<in> dom h" by auto
  then obtain t where t: "cid = Sprintf_d t"
    using assms(1) posts_keys_decimal by blast
  have slash: "CHR ''/'' \<notin> set cid" by (simp only: t Sprintf_d_no_slash not_False_eq_True)
  have nr: "cid \<noteq> ''random''" by (simp only: t Sprintf_d_not_random not_False_eq_True)
  let ?k = "cid @ ''?'' @ q"
  have qm: "CHR ''?'' \<in> set ?k" by simp
  have knr: "?k \<noteq> ''random''"
  proof
    assume "?k = ''random''"
    then have "set ?k = set ''random''" by (rule arg_cong)
    with qm have "CHR ''?'' \<in> set ''random''" by blast
    then show False by simp
  qed
  have miss: "h ?k = None"
  proof (rule ccontr)
    assume "h ?k \<noteq> None"
    then have "?k \<in> dom h" by auto
    then obtain t' where "?k = Sprintf_d t'"
      using assms(1) posts_keys_decimal by blast
    moreover have "CHR ''?'' \<notin> set (Sprintf_d t')" by (rule Sprintf_d_no) simp_all
    ultimately show False using qm by simp
  qed
  have hit: "getCoaster es rnd h (r\<lparr>URL := ''/coasters/'' @ cid\<rparr>) new_writer =
           Some (Write (Encoded (coaster_json c))
                  (WriteHeader 200 (Header_Add ''content-type'' ''application/json'' new_writer)))"
    using slash nr assms(2) by (rule getCoaster_hit) simp
  have noslash: "getCoaster es rnd h r new_writer =
        Some (Write (Text (''No content found for ID, '' @ [CHR 0x27] @ ?k @ [CHR 0x27]))
               (WriteHeader 404 new_writer))
      \<and> Split (URL r) (CHR ''/'') ! 2 = ?k" if q: "CHR ''/'' \<notin> set q"
  proof -
    have ks: "CHR ''/'' \<notin> set ?k" using slash q by simp
    have "Split (URL r) (CHR ''/'') = [[], ''coasters'', ?k]"
      unfolding assms(3) using ks by (rule Split_id)
    then have "Split (URL r) (CHR ''/'') ! 2 = ?k" by simp
    moreover have "getCoaster es rnd h r new_writer =
        Some (Write (Text (''No content found for ID, '' @ [CHR 0x27] @ ?k @ [CHR 0x27]))
               (WriteHeader 404 new_writer))"
      using ks knr miss assms(3) by (rule getCoaster_miss)
    ultimately show ?thesis by simp
  qed
  have st: "\<exists>w'. getCoaster es rnd h r new_writer = Some w' \<and> status_sent w' = 404"
  proof (cases "CHR ''/'' \<in> set q")
    case False
    with noslash show ?thesis by (simp add: writer_defs)
  next
    case True
    then have "CHR ''/'' \<in> set ?k" by simp
    then have "0 < count_list ?k (CHR ''/'')" by (rule count_list_pos)
    moreover have "length (Split ?k (CHR ''/'')) = Suc (count_list ?k (CHR ''/''))"
      by (rule Split_length)
    ultimately have "2 \<le> length (Split ?k (CHR ''/''))" by arith
    moreover have "Split (URL r) (CHR ''/'') = [] # ''coasters'' # Split ?k (CHR ''/'')"
      by (simp only: assms(3) Split_coasters)
    ultimately have "length (Split (URL r) (CHR ''/'')) \<noteq> 3" by simp
    then show ?thesis by (simp add: getCoaster_shape writer_defs)
  qed
  from hit st noslash show ?thesis by simp
qed

theorem query_string_is_part_of_the_id_witness:
  \<open>posts sample_Unmarshal newCoasterHandlers
      [(5, post_request ''application/json''
             ''{"name":"Taron","manufactur":"Intamin","inPark":"Phantasialand","height":30}'')] ''5''
     = Some \<lparr>Name = ''Taron'', Manufactur = ''Intamin'', ID = ''5'',
              InPark = ''Phantasialand'', Height = 30\<rparr>
   \<and> URL (get_request ''/coasters/5?k=v'') = ''/coasters/'' @ ''5'' @ ''?'' @ ''k=v''
   \<and> getCoaster [] 0
        (posts sample_Unmarshal newCoasterHandlers
          [(5, post_request ''application/json''
             ''{"name":"Taron","manufactur":"Intamin","inPark":"Phantasialand","height":30}'')])
        (get_request ''/coasters/5?k=v'') new_writer
      = Some (Write (Text (''No content found for ID, '' @ [CHR 0x27] @ ''5?k=v'' @ [CHR 0x27]))
                (WriteHeader 404 new_writer))
   \<and> status_sent (Write (Text (''No content found for ID, '' @ [CHR 0x27] @ ''5?k=v'' @ [CHR 0x27]))
                (WriteHeader 404 new_writer)) = 404\<close>
proof -
  let ?evs = \<open>[(5::int, post_request ''application/json''
             ''{"name":"Taron","manufactur":"Intamin","inPark":"Phantasialand","height":30}'')]\<close>
  let ?c = "\<lparr>Name = ''Taron'', Manufactur = ''Intamin'', ID = ''5'',
              InPark = ''Phantasialand'', Height = 30\<rparr>"
  have a: "posts sample_Unmarshal newCoasterHandlers ?evs ''5'' = Some ?c"
    by (simp only: posts_example) simp
  have b: "URL (get_request ''/coasters/5?k=v'') = ''/coasters/'' @ ''5'' @ ''?'' @ ''k=v''"
    by (simp add: get_request_def)
  note t = query_string_is_part_of_the_id [OF refl a b, of "[]" 0]
  have q: "CHR ''/'' \<notin> set ''k=v''" by simp
  from t q have c: "getCoaster [] 0 (posts sample_Unmarshal newCoasterHandlers ?evs)
        (get_request ''/coasters/5?k=v'') new_writer
      = Some (Write (Text (''No content found for ID, '' @ [CHR 0x27] @ ''5'' @ ''?'' @ ''k=v'' @ [CHR 0x27]))
                (WriteHeader 404 new_writer))"
    by blast
  have d: "status_sent (Write (Text (''No content found for ID, '' @ [CHR 0x27] @ ''5?k=v'' @ [CHR 0x27]))
                (WriteHeader 404 new_writer)) = 404"
    by (simp add: writer_defs)
  from a b c d show ?thesis by simp
qed

section \<open>Creating a coaster\<close>

lemma coasters_POST: "Method r = ''POST'' \<Longrightarrow> coasters u now es h r w = post u now h r w"
  by (simp add: coasters_def)

lemma post_writer_ok:
  assumes "ContentType r = ''application/json''" and "Body r = (b, None)"
    and "u b coaster_zero = (c, None)"
  shows "fst (post u now h r w) = w"
  using assms by (simp add: post_def)

lemma post_writer_400:
  assumes "ContentType r = ''application/json''" and "Body r = (b, None)"
    and "u b coaster_zero = (c, Some e)"
  shows "fst (post u now h r w) = Write (Text e) (WriteHeader 400 w)"
  using assms by (simp add: post_def)

lemma post_writer_415:
  assumes "ContentType r \<noteq> ''application/json''" and "Body r = (b, None)"
  shows "fst (post u now h r w) =
     (case snd (u b coaster_zero) of
        None \<Rightarrow> Write (Text (''Need type of application/json but got '' @ [CHR 0x27] @ ContentType r @ [CHR 0x27]))
                  (WriteHeader 415 w)
      | Some e \<Rightarrow> Write (Text e) (WriteHeader 400
                  (Write (Text (''Need type of application/json but got '' @ [CHR 0x27] @ ContentType r @ [CHR 0x27]))
                     (WriteHeader 415 w))))"
proof -
  obtain c err where d: "u b coaster_zero = (c, err)" by (cases "u b coaster_zero")
  show ?thesis
    using assms d by (cases err) (simp_all add: post_def)
qed

lemma last_body_Write: "last (body (Write b w)) = b"
  by (simp add: Write_def Let_def)

lemma upd_fresh_neq: "k \<notin> dom h \<Longrightarrow> h(k \<mapsto> v) \<noteq> h"
proof
  assume k: "k \<notin> dom h" and eq: "h(k \<mapsto> v) = h"
  from eq have "(h(k \<mapsto> v)) k = h k" by simp
  with k show False by (simp add: domIff)
qed

lemma key_in_posts: "(Sprintf_d now \<in> dom (posts u newCoasterHandlers evs)) = (now \<in> fst ` set evs)"
proof
  assume "Sprintf_d now \<in> dom (posts u newCoasterHandlers evs)"
  then have "Sprintf_d now \<in> Sprintf_d ` fst ` set evs"
    by (simp add: dom_posts newCoasterHandlers_def)
  then obtain t where t: "t \<in> fst ` set evs" and eq: "Sprintf_d now = Sprintf_d t" by blast
  from eq have "now = t" by (rule Sprintf_d_inj)
  with t show "now \<in> fst ` set evs" by simp
next
  assume "now \<in> fst ` set evs"
  then show "Sprintf_d now \<in> dom (posts u newCoasterHandlers evs)"
    by (simp add: dom_posts newCoasterHandlers_def)
qed

lemma finite_dom_reached: "finite (dom (posts u newCoasterHandlers evs))"
  by (simp add: dom_posts newCoasterHandlers_def)

lemma card_dom_upd:
  assumes "finite (dom h)"
  shows "card (dom (h(k \<mapsto> v))) = (if k \<in> dom h then card (dom h) else card (dom h) + 1)"
  using assms by (simp add: insert_absorb)

lemma post_writer_400_after_500:
  assumes "ContentType r = ''application/json''" and "Body r = (b, Some re)"
    and "u b coaster_zero = (c, Some e)"
  shows "fst (post u now h r w) =
     Write (Text e) (WriteHeader 400 (Write (Text re) (WriteHeader 500 w)))"
  using assms by (simp add: post_def)

text \<open>
  C9 (amended). For a \<open>POST /coasters\<close> with content type \<open>application/json\<close> whose body
  the decoder rejects with error \<open>e\<close>, leaving \<open>c'\<close> in the target: the handler writes
  \<open>e\<close> (the response is 400 with \<open>e\<close>, or, when reading the body had already failed, the
  500 written first with \<open>e\<close> appended) and then still stores \<open>c'\<close> under the decimal
  clock reading, with \<open>ID\<close> set to it. The stored record is the zero value with the id
  filled in exactly when the decoder left every other field at zero. On a store reached
  by posts the number of entries grows by one exactly when the clock reading differs
  from that of every earlier post, and then the store is not what it was; at a repeated
  reading the entry under that id is replaced.
\<close>

theorem post_malformed_body_still_stores:
  assumes "Method r = ''POST''" and "ContentType r = ''application/json''"
    and "Body r = (b, rerr)" and "u b coaster_zero = (c', Some e)"
  shows "snd (coasters u now es h r new_writer) = h(Sprintf_d now \<mapsto> c'\<lparr>ID := Sprintf_d now\<rparr>)
       \<and> last (body (fst (coasters u now es h r new_writer))) = Text e
       \<and> status_sent (fst (coasters u now es h r new_writer))
            = (case rerr of None \<Rightarrow> 400 | Some re \<Rightarrow> 500)
       \<and> body (fst (coasters u now es h r new_writer))
            = (case rerr of None \<Rightarrow> [Text e] | Some re \<Rightarrow> [Text re, Text e])
       \<and> (snd (coasters u now es h r new_writer) (Sprintf_d now) =
              Some \<lparr>Name = [], Manufactur = [], ID = Sprintf_d now, InPark = [], Height = 0\<rparr>)
           = (c'\<lparr>ID := []\<rparr> = coaster_zero)
       \<and> card (dom (snd (coasters u now es (posts u newCoasterHandlers evs) r new_writer)))
            = (if now \<in> fst ` set evs
               then card (dom (posts u newCoasterHandlers evs))
               else card (dom (posts u newCoasterHandlers evs)) + 1)
       \<and> (now \<notin> fst ` set evs \<longrightarrow>
            snd (coasters u now es (posts u newCoasterHandlers evs) r new_writer)
              \<noteq> posts u newCoasterHandlers evs)"
proof -
  let ?k = "Sprintf_d now"
  let ?p = "posts u newCoasterHandlers evs"
  have st: "snd (coasters u now es h r new_writer) = h(?k \<mapsto> c'\<lparr>ID := ?k\<rparr>)" for h
    using assms(1,3,4) by (simp add: coasters_POST post_store)
  have lst: "last (body (fst (coasters u now es h r new_writer))) = Text e"
    using assms(1,2,3,4) by (simp add: coasters_POST post_def last_body_Write)
  have w: "fst (coasters u now es h r new_writer) =
      (case rerr of None \<Rightarrow> Write (Text e) (WriteHeader 400 new_writer)
       | Some re \<Rightarrow> Write (Text e) (WriteHeader 400 (Write (Text re) (WriteHeader 500 new_writer))))"
    using assms by (cases rerr) (simp_all add: coasters_POST post_writer_400 post_writer_400_after_500)
  have s: "status_sent (fst (coasters u now es h r new_writer))
            = (case rerr of None \<Rightarrow> 400 | Some re \<Rightarrow> 500)"
    unfolding w by (cases rerr) (simp_all add: writer_defs)
  have bd: "body (fst (coasters u now es h r new_writer))
            = (case rerr of None \<Rightarrow> [Text e] | Some re \<Rightarrow> [Text re, Text e])"
    unfolding w by (cases rerr) (simp_all add: writer_defs)
  have zero: "(snd (coasters u now es h r new_writer) ?k =
              Some \<lparr>Name = [], Manufactur = [], ID = ?k, InPark = [], Height = 0\<rparr>)
           = (c'\<lparr>ID := []\<rparr> = coaster_zero)"
    by (cases c') (auto simp: st coaster_zero_def)
  have card: "card (dom (snd (coasters u now es ?p r new_writer)))
            = (if now \<in> fst ` set evs then card (dom ?p) else card (dom ?p) + 1)"
    unfolding st using card_dom_upd [OF finite_dom_reached, of u evs ?k "c'\<lparr>ID := ?k\<rparr>"]
    by (simp only: key_in_posts)
  have neq: "snd (coasters u now es ?p r new_writer) \<noteq> ?p" if "now \<notin> fst ` set evs"
  proof -
    from that have "?k \<notin> dom ?p" by (simp only: key_in_posts not_False_eq_True)
    then show ?thesis unfolding st by (rule upd_fresh_neq)
  qed
  from st [of h] lst s bd zero card neq show ?thesis by blast
qed

theorem post_malformed_body_still_stores_witness:
  \<open>Method (post_request ''application/json'' ''{'') = ''POST''
   \<and> sample_Unmarshal ''{'' coaster_zero = (coaster_zero, Some ''unexpected end of JSON input'')
   \<and> snd (coasters sample_Unmarshal 6 []
             (posts sample_Unmarshal newCoasterHandlers
                [(5, post_request ''application/json'' ''{"id":"mine","name":"Taron"}'')])
             (post_request ''application/json'' ''{'') new_writer) ''6''
       = Some \<lparr>Name = [], Manufactur = [], ID = ''6'', InPark = [], Height = 0\<rparr>
   \<and> card (dom (snd (coasters sample_Unmarshal 6 []
             (posts sample_Unmarshal newCoasterHandlers
                [(5, post_request ''application/json'' ''{"id":"mine","name":"Taron"}'')])
             (post_request ''application/json'' ''{'') new_writer))) = 2
   \<and> status_sent (fst (coasters sample_Unmarshal 6 []
             (posts sample_Unmarshal newCoasterHandlers
                [(5, post_request ''application/json'' ''{"id":"mine","name":"Taron"}'')])
             (post_request ''application/json'' ''{'') new_writer)) = 400
   \<and> body (fst (coasters sample_Unmarshal 6 []
             (posts sample_Unmarshal newCoasterHandlers
                [(5, post_request ''application/json'' ''{"id":"mine","name":"Taron"}'')])
             (post_request ''application/json'' ''{'') new_writer))
       = [Text ''unexpected end of JSON input'']\<close>
proof -
  let ?r = \<open>post_request ''application/json'' ''{''\<close>
  let ?evs = \<open>[(5::int, post_request ''application/json'' ''{"id":"mine","name":"Taron"}'')]\<close>
  let ?h = "posts sample_Unmarshal newCoasterHandlers ?evs"
  have m: "Method ?r = ''POST''" and ct: "ContentType ?r = ''application/json''"
    and b: "Body ?r = (''{'', None)"
    by (simp_all add: post_request_def)
  have d: "sample_Unmarshal ''{'' coaster_zero = (coaster_zero, Some ''unexpected end of JSON input'')"
    by (simp add: sample_Unmarshal_def)
  note t = post_malformed_body_still_stores
    [where u = sample_Unmarshal and es = "[]" and now = 6 and h = ?h and evs = ?evs, OF m ct b d]
  have z: "coaster_zero\<lparr>ID := []\<rparr> = coaster_zero" by (simp add: coaster_zero_def)
  from t z have st: "snd (coasters sample_Unmarshal 6 [] ?h ?r new_writer) (Sprintf_d 6)
       = Some \<lparr>Name = [], Manufactur = [], ID = Sprintf_d 6, InPark = [], Height = 0\<rparr>"
    by blast
  have one: "card (dom ?h) = 1"
    by (simp only: dom_posts) (simp add: newCoasterHandlers_def)
  from t have "card (dom (snd (coasters sample_Unmarshal 6 [] ?h ?r new_writer)))
      = (if 6 \<in> fst ` set ?evs then card (dom ?h) else card (dom ?h) + 1)"
    by blast
  moreover have "(6::int) \<notin> fst ` set ?evs" by simp
  ultimately have "card (dom (snd (coasters sample_Unmarshal 6 [] ?h ?r new_writer))) = card (dom ?h) + 1"
    by (simp only: if_False)
  with one have c: "card (dom (snd (coasters sample_Unmarshal 6 [] ?h ?r new_writer))) = 2"
    by simp
  from t have s4: "status_sent (fst (coasters sample_Unmarshal 6 [] ?h ?r new_writer)) = 400"
    and bd: "body (fst (coasters sample_Unmarshal 6 [] ?h ?r new_writer))
       = [Text ''unexpected end of JSON input'']"
    by simp_all
  from m d st c s4 bd show ?thesis by (simp add: Sprintf_d_6)
qed

text \<open>
  C9 as stated fails in three places: a body with a type error leaves \<open>Name\<close> filled, so
  the stored record is not the zero value; a failing post at the clock reading of an
  earlier one replaces that entry, so the store does not grow (here it is unchanged);
  and after a failed read of the body the status sent is the 500 written first.
\<close>

theorem post_type_error_stores_filled_record:
  \<open>status_sent (fst (coasters sample_Unmarshal 5 [] newCoasterHandlers
        (post_request ''application/json'' ''{"name":"Big","height":"tall"}'') new_writer)) = 400
   \<and> snd (coasters sample_Unmarshal 5 [] newCoasterHandlers
        (post_request ''application/json'' ''{"name":"Big","height":"tall"}'') new_writer) ''5''
       = Some \<lparr>Name = ''Big'', Manufactur = [], ID = ''5'', InPark = [], Height = 0\<rparr>
   \<and> snd (coasters sample_Unmarshal 5 []
        (posts sample_Unmarshal newCoasterHandlers [(5, post_request ''application/json'' ''{'')])
        (post_request ''application/json'' ''{'') new_writer)
       = posts sample_Unmarshal newCoasterHandlers [(5, post_request ''application/json'' ''{'')]
   \<and> status_sent (fst (coasters sample_Unmarshal 5 [] newCoasterHandlers
        ((post_request ''application/json'' ''{'')\<lparr>Body := (''{'', Some ''unexpected EOF'')\<rparr>)
        new_writer)) = 500\<close>
  by (simp add: coasters_def post_def post_request_def sample_Unmarshal_def writer_defs
      coaster_zero_def newCoasterHandlers_def Sprintf_d_5)

text \<open>
  C1 (as the code has it). For a \<open>POST /coasters\<close> whose content type is not
  \<open>application/json\<close> (body read without error): the status is 415 and the first
  chunk of the body is the message naming the content type, but the handler does not
  return: it decodes the body and stores the record under the decimal clock reading,
  so with a fresh id the store after the request differs from the store before it.
\<close>

theorem post_wrong_content_type_still_stores:
  assumes "Method r = ''POST''" and "ContentType r \<noteq> ''application/json''"
    and "Body r = (b, None)"
  shows "status_sent (fst (coasters u now es h r new_writer)) = 415
       \<and> hd (body (fst (coasters u now es h r new_writer))) =
           Text (''Need type of application/json but got '' @ [CHR 0x27] @ ContentType r @ [CHR 0x27])
       \<and> snd (coasters u now es h r new_writer) =
           h(Sprintf_d now \<mapsto> (fst (u b coaster_zero))\<lparr>ID := Sprintf_d now\<rparr>)
       \<and> (Sprintf_d now \<notin> dom h \<longrightarrow> snd (coasters u now es h r new_writer) \<noteq> h)"
proof -
  have w: "fst (coasters u now es h r new_writer) =
     (case snd (u b coaster_zero) of
        None \<Rightarrow> Write (Text (''Need type of application/json but got '' @ [CHR 0x27] @ ContentType r @ [CHR 0x27]))
                  (WriteHeader 415 new_writer)
      | Some e \<Rightarrow> Write (Text e) (WriteHeader 400
                  (Write (Text (''Need type of application/json but got '' @ [CHR 0x27] @ ContentType r @ [CHR 0x27]))
                     (WriteHeader 415 new_writer))))"
    unfolding coasters_POST [OF assms(1)] using assms(2,3) by (rule post_writer_415)
  have s: "status_sent (fst (coasters u now es h r new_writer)) = 415"
    unfolding w by (simp add: writer_defs split: option.splits)
  have b: "hd (body (fst (coasters u now es h r new_writer))) =
           Text (''Need type of application/json but got '' @ [CHR 0x27] @ ContentType r @ [CHR 0x27])"
    unfolding w by (simp add: writer_defs split: option.splits)
  have st: "snd (coasters u now es h r new_writer) =
           h(Sprintf_d now \<mapsto> (fst (u b coaster_zero))\<lparr>ID := Sprintf_d now\<rparr>)"
    using assms(1,3) by (simp add: coasters_POST post_store)
  have "snd (coasters u now es h r new_writer) \<noteq> h" if "Sprintf_d now \<notin> dom h"
    unfolding st using that by (rule upd_fresh_neq)
  with s b st show ?thesis by blast
qed

theorem post_wrong_content_type_still_stores_witness:
  \<open>Method (post_request ''text/plain'' ''{"manufacturer":"Intamin"}'') = ''POST''
   \<and> ContentType (post_request ''text/plain'' ''{"manufacturer":"Intamin"}'') \<noteq> ''application/json''
   \<and> status_sent (fst (coasters sample_Unmarshal 5 [] newCoasterHandlers
        (post_request ''text/plain'' ''{"manufacturer":"Intamin"}'') new_writer)) = 415
   \<and> snd (coasters sample_Unmarshal 5 [] newCoasterHandlers
        (post_request ''text/plain'' ''{"manufacturer":"Intamin"}'') new_writer)
       = [''5'' \<mapsto> \<lparr>Name = [], Manufactur = [], ID = ''5'', InPark = [], Height = 0\<rparr>]
   \<and> snd (coasters sample_Unmarshal 5 [] newCoasterHandlers
        (post_request ''text/plain'' ''{"manufacturer":"Intamin"}'') new_writer)
       \<noteq> newCoasterHandlers\<close>
proof -
  let ?r = \<open>post_request ''text/plain'' ''{"manufacturer":"Intamin"}''\<close>
  have m: "Method ?r = ''POST''" and ct: "ContentType ?r \<noteq> ''application/json''"
    and b: \<open>Body ?r = (''{"manufacturer":"Intamin"}'', None)\<close>
    by (simp_all add: post_request_def)
  have fresh: "Sprintf_d 5 \<notin> dom newCoasterHandlers"
    by (simp add: newCoasterHandlers_def)
  note t = post_wrong_content_type_still_stores
    [where u = sample_Unmarshal and es = "[]" and now = 5 and h = newCoasterHandlers, OF m ct b]
  from t have s: "status_sent (fst (coasters sample_Unmarshal 5 [] newCoasterHandlers ?r new_writer)) = 415"
    by blast
  from t have \<open>snd (coasters sample_Unmarshal 5 [] newCoasterHandlers ?r new_writer) =
      newCoasterHandlers(Sprintf_d 5 \<mapsto>
        (fst (sample_Unmarshal ''{"manufacturer":"Intamin"}'' coaster_zero))\<lparr>ID := Sprintf_d 5\<rparr>)\<close>
    by blast
  then have st: "snd (coasters sample_Unmarshal 5 [] newCoasterHandlers ?r new_writer)
       = [''5'' \<mapsto> \<lparr>Name = [], Manufactur = [], ID = ''5'', InPark = [], Height = 0\<rparr>]"
    by (simp add: Sprintf_d_5 newCoasterHandlers_def coaster_zero_def sample_Unmarshal_def)
  from t fresh have ne: "snd (coasters sample_Unmarshal 5 [] newCoasterHandlers ?r new_writer)
       \<noteq> newCoasterHandlers"
    by blast
  from m ct s st ne show ?thesis by blast
qed

text \<open>
  C3 (amended). For a \<open>POST /coasters\<close> with content type \<open>application/json\<close>, a body
  read without error and decoded without error into \<open>c\<close>: the handler stores \<open>c\<close> with
  its id set to the decimal clock reading under that id, and writes nothing: no status,
  no header, no body, so the server answers with its default 200 and an empty body.
\<close>

theorem post_success_writes_no_response:
  assumes "Method r = ''POST''" and "ContentType r = ''application/json''"
    and "Body r = (b, None)" and "u b coaster_zero = (c, None)"
  shows "coasters u now es h r new_writer =
           (new_writer, h(Sprintf_d now \<mapsto> c\<lparr>ID := Sprintf_d now\<rparr>))
       \<and> status_sent new_writer = 200
       \<and> headers_sent new_writer = []
       \<and> body new_writer = []"
proof -
  have "fst (coasters u now es h r new_writer) = new_writer"
    using assms by (simp add: coasters_POST post_writer_ok)
  moreover have "snd (coasters u now es h r new_writer) = h(Sprintf_d now \<mapsto> c\<lparr>ID := Sprintf_d now\<rparr>)"
    using assms(1,3,4) by (simp add: coasters_POST post_store)
  ultimately have "coasters u now es h r new_writer =
           (new_writer, h(Sprintf_d now \<mapsto> c\<lparr>ID := Sprintf_d now\<rparr>))"
    by (simp add: prod_eq_iff)
  then show ?thesis by (simp add: writer_defs)
qed

theorem post_success_writes_no_response_witness:
  \<open>Method (post_request ''application/json''
         ''{"name":"Taron","manufactur":"Intamin","inPark":"Phantasialand","height":30}'') = ''POST''
   \<and> sample_Unmarshal
        ''{"name":"Taron","manufactur":"Intamin","inPark":"Phantasialand","height":30}'' coaster_zero
       = (\<lparr>Name = ''Taron'', Manufactur = ''Intamin'', ID = [], InPark = ''Phantasialand'', Height = 30\<rparr>, None)
   \<and> coasters sample_Unmarshal 5 [] newCoasterHandlers
      (post_request ''application/json''
         ''{"name":"Taron","manufactur":"Intamin","inPark":"Phantasialand","height":30}'')
      new_writer
     = (new_writer,
        [''5'' \<mapsto> \<lparr>Name = ''Taron'', Manufactur = ''Intamin'', ID = ''5'',
                    InPark = ''Phantasialand'', Height = 30\<rparr>])\<close>
proof -
  let ?b = \<open>''{"name":"Taron","manufactur":"Intamin","inPark":"Phantasialand","height":30}''\<close>
  let ?r = "post_request ''application/json'' ?b"
  let ?c = "\<lparr>Name = ''Taron'', Manufactur = ''Intamin'', ID = [], InPark = ''Phantasialand'', Height = 30\<rparr>"
  have m: "Method ?r = ''POST''" and ct: "ContentType ?r = ''application/json''"
    and b: "Body ?r = (?b, None)"
    by (simp_all add: post_request_def)
  have d: "sample_Unmarshal ?b coaster_zero = (?c, None)"
    by (simp add: sample_Unmarshal_def coaster_zero_def)
  from post_success_writes_no_response
    [where u = sample_Unmarshal and es = "[]" and now = 5 and h = newCoasterHandlers, OF m ct b d]
  have "coasters sample_Unmarshal 5 [] newCoasterHandlers ?r new_writer =
      (new_writer, newCoasterHandlers(Sprintf_d 5 \<mapsto> ?c\<lparr>ID := Sprintf_d 5\<rparr>))"
    by blast
  then have "coasters sample_Unmarshal 5 [] newCoasterHandlers ?r new_writer =
      (new_writer, [''5'' \<mapsto> \<lparr>Name = ''Taron'', Manufactur = ''Intamin'', ID = ''5'',
                    InPark = ''Phantasialand'', Height = 30\<rparr>])"
    by (simp add: Sprintf_d_5 newCoasterHandlers_def)
  with m d show ?thesis by blast
qed

text \<open>
  C3 as stated (status 201 with the created coaster as JSON) fails: a well-formed post
  gets status 200 and an empty body.
\<close>

theorem post_success_is_not_201:
  \<open>status_sent (fst (coasters sample_Unmarshal 5 [] newCoasterHandlers
      (post_request ''application/json''
         ''{"name":"Taron","manufactur":"Intamin","inPark":"Phantasialand","height":30}'')
      new_writer)) = 200
   \<and> body (fst (coasters sample_Unmarshal 5 [] newCoasterHandlers
      (post_request ''application/json''
         ''{"name":"Taron","manufactur":"Intamin","inPark":"Phantasialand","height":30}'')
      new_writer)) = []\<close>
  by (simp add: coasters_def post_def post_request_def sample_Unmarshal_def writer_defs)

section \<open>Identifiers\<close>








text \<open>
  C5 (amended). For a \<open>POST /coasters\<close> with content type \<open>application/json\<close> whose body
  is read and decoded without error into \<open>c\<close>: the handler writes no response (no body,
  no header, default status 200, so no id is returned); the id assigned, the decimal
  clock reading, is non-empty; it equals the id of another post exactly when the two
  clock readings are equal, so it is a key of a store reached by earlier posts exactly
  when one of them had the same reading; and a following request for \<open>/coasters/{id}\<close>
  is answered 200 with the JSON of \<open>c\<close> with its id replaced by the assigned one.
\<close>

theorem post_then_get_roundtrip:
  assumes "Method r = ''POST''" and "ContentType r = ''application/json''"
    and "Body r = (b, None)" and "u b coaster_zero = (c, None)"
  shows "fst (coasters u now es h r new_writer) = new_writer
       \<and> body new_writer = [] \<and> headers_sent new_writer = [] \<and> status_sent new_writer = 200
       \<and> Sprintf_d now \<noteq> []
       \<and> (\<forall>t. (Sprintf_d now = Sprintf_d t) = (now = t))
       \<and> (Sprintf_d now \<in> dom (posts u newCoasterHandlers evs)) = (now \<in> fst ` set evs)
       \<and> snd (coasters u now es h r new_writer) (Sprintf_d now) = Some (c\<lparr>ID := Sprintf_d now\<rparr>)
       \<and> getCoaster es' rnd (snd (coasters u now es h r new_writer))
            (get_request (''/coasters/'' @ Sprintf_d now)) new_writer
          = Some (Write (Encoded (coaster_json (c\<lparr>ID := Sprintf_d now\<rparr>)))
                   (WriteHeader 200 (Header_Add ''content-type'' ''application/json'' new_writer)))
       \<and> status_sent (Write (Encoded (coaster_json (c\<lparr>ID := Sprintf_d now\<rparr>)))
                   (WriteHeader 200 (Header_Add ''content-type'' ''application/json'' new_writer))) = 200"
proof -
  let ?k = "Sprintf_d now"
  have w: "fst (coasters u now es h r new_writer) = new_writer"
    using assms by (simp add: coasters_POST post_writer_ok)
  have nw: "body new_writer = [] \<and> headers_sent new_writer = [] \<and> status_sent new_writer = 200"
    by (simp add: writer_defs)
  have st: "snd (coasters u now es h r new_writer) = h(?k \<mapsto> c\<lparr>ID := ?k\<rparr>)"
    using assms(1,3,4) by (simp add: coasters_POST post_store)
  have ne: "?k \<noteq> []" by (rule Sprintf_d_nonempty)
  have inj: "(Sprintf_d now = Sprintf_d t) = (now = t)" for t
    using Sprintf_d_inj [of now t] by blast
  have key: "(?k \<in> dom (posts u newCoasterHandlers evs)) = (now \<in> fst ` set evs)"
    by (rule key_in_posts)
  have hit: "snd (coasters u now es h r new_writer) ?k = Some (c\<lparr>ID := ?k\<rparr>)"
    by (simp add: st)
  have slash: "CHR ''/'' \<notin> set ?k" by (rule Sprintf_d_no_slash)
  have nr: "?k \<noteq> ''random''" by (rule Sprintf_d_not_random)
  have g: "getCoaster es' rnd (snd (coasters u now es h r new_writer))
            (get_request (''/coasters/'' @ ?k)) new_writer
          = Some (Write (Encoded (coaster_json (c\<lparr>ID := ?k\<rparr>)))
                   (WriteHeader 200 (Header_Add ''content-type'' ''application/json'' new_writer)))"
    using slash nr hit by (rule getCoaster_hit) (simp add: get_request_def)
  have s: "status_sent (Write (Encoded (coaster_json (c\<lparr>ID := ?k\<rparr>)))
                   (WriteHeader 200 (Header_Add ''content-type'' ''application/json'' new_writer))) = 200"
    by (simp add: writer_defs)
  from w nw ne inj key hit g s show ?thesis by blast
qed

theorem post_then_get_roundtrip_witness:
  \<open>Method (post_request ''application/json''
        ''{"name":"Taron","manufactur":"Intamin","inPark":"Phantasialand","height":30}'') = ''POST''
   \<and> sample_Unmarshal
        ''{"name":"Taron","manufactur":"Intamin","inPark":"Phantasialand","height":30}'' coaster_zero
       = (\<lparr>Name = ''Taron'', Manufactur = ''Intamin'', ID = [], InPark = ''Phantasialand'', Height = 30\<rparr>, None)
   \<and> ''6'' \<notin> dom (posts sample_Unmarshal newCoasterHandlers
        [(5, post_request ''application/json'' ''{"id":"mine","name":"Taron"}'')])
   \<and> getCoaster [] 0
        (snd (coasters sample_Unmarshal 6 []
           (posts sample_Unmarshal newCoasterHandlers
              [(5, post_request ''application/json'' ''{"id":"mine","name":"Taron"}'')])
           (post_request ''application/json''
              ''{"name":"Taron","manufactur":"Intamin","inPark":"Phantasialand","height":30}'')
           new_writer))
        (get_request ''/coasters/6'') new_writer
      = Some (Write (Encoded (coaster_json
                \<lparr>Name = ''Taron'', Manufactur = ''Intamin'', ID = ''6'',
                 InPark = ''Phantasialand'', Height = 30\<rparr>))
               (WriteHeader 200 (Header_Add ''content-type'' ''application/json'' new_writer)))\<close>
proof -
  let ?evs = \<open>[(5::int, post_request ''application/json'' ''{"id":"mine","name":"Taron"}'')]\<close>
  let ?b = \<open>''{"name":"Taron","manufactur":"Intamin","inPark":"Phantasialand","height":30}''\<close>
  let ?r = "post_request ''application/json'' ?b"
  let ?c = "\<lparr>Name = ''Taron'', Manufactur = ''Intamin'', ID = [], InPark = ''Phantasialand'', Height = 30\<rparr>"
  have m: "Method ?r = ''POST''" and ct: "ContentType ?r = ''application/json''"
    and b: "Body ?r = (?b, None)"
    by (simp_all add: post_request_def)
  have d: "sample_Unmarshal ?b coaster_zero = (?c, None)"
    by (simp add: sample_Unmarshal_def coaster_zero_def)
  note t = post_then_get_roundtrip
    [where u = sample_Unmarshal and es = "[]" and es' = "[]" and rnd = 0 and now = 6
       and evs = ?evs and h = "posts sample_Unmarshal newCoasterHandlers ?evs", OF m ct b d]
  from t have "(Sprintf_d 6 \<in> dom (posts sample_Unmarshal newCoasterHandlers ?evs))
      = (6 \<in> fst ` set ?evs)"
    by blast
  then have f: "''6'' \<notin> dom (posts sample_Unmarshal newCoasterHandlers ?evs)"
    by (simp add: Sprintf_d_6)
  from t have g: "getCoaster [] 0
        (snd (coasters sample_Unmarshal 6 [] (posts sample_Unmarshal newCoasterHandlers ?evs) ?r new_writer))
        (get_request ''/coasters/6'') new_writer
      = Some (Write (Encoded (coaster_json
                \<lparr>Name = ''Taron'', Manufactur = ''Intamin'', ID = ''6'',
                 InPark = ''Phantasialand'', Height = 30\<rparr>))
               (WriteHeader 200 (Header_Add ''content-type'' ''application/json'' new_writer)))"
    by (simp add: Sprintf_d_6)
  from m d f g show ?thesis by blast
qed

text \<open>
  C5 as stated fails in two places: the response to an accepted post has no body and no
  header, so it carries no id; and a second accepted post at the same clock reading is
  given the id of the first and replaces its record.
\<close>

theorem post_response_carries_no_id:
  \<open>body (fst (coasters sample_Unmarshal 5 [] newCoasterHandlers
      (post_request ''application/json'' ''{"id":"mine","name":"Taron"}'') new_writer)) = []
   \<and> headers_sent (fst (coasters sample_Unmarshal 5 [] newCoasterHandlers
      (post_request ''application/json'' ''{"id":"mine","name":"Taron"}'') new_writer)) = []
   \<and> posts sample_Unmarshal newCoasterHandlers
        [(5, post_request ''application/json'' ''{"id":"mine","name":"Taron"}''),
         (5, post_request ''application/json''
               ''{"name":"Taron","manufactur":"Intamin","inPark":"Phantasialand","height":30}'')]
      = [''5'' \<mapsto> \<lparr>Name = ''Taron'', Manufactur = ''Intamin'', ID = ''5'',
                     InPark = ''Phantasialand'', Height = 30\<rparr>]\<close>
  by (simp add: coasters_def post_def post_request_def sample_Unmarshal_def writer_defs
      coaster_zero_def newCoasterHandlers_def Sprintf_d_5)

section \<open>The JSON keys\<close>

text \<open>
  C4 (as the code has it). A coaster is serialised under the keys \<open>name\<close>,
  \<open>manufactur\<close>, \<open>id\<close>, \<open>inPark\<close>, \<open>height\<close>: the tag of the field \<open>Manufactur\<close> is
  \<open>manufactur\<close>, and the key \<open>manufacturer\<close> of the claim is not among them.
\<close>

theorem coaster_json_keys:
  "json_keys (coaster_json c) = [''name'', ''manufactur'', ''id'', ''inPark'', ''height'']
   \<and> ''manufacturer'' \<notin> set (json_keys (coaster_json c))"
  by (simp add: coaster_json_def)

end
